theory Spec2Isabelle
  imports Main "HOL-Library.Sublist"
begin

section \<open>The Thunder context wrapper (thunder/utils/context.py)\<close>

text \<open>
  The module is a dispatcher over collaborators that live outside this file: the Spark
  session, \<open>SeriesLoader\<close>, \<open>ImagesLoader\<close>, \<open>PreProcessor\<close>, \<open>DataSets\<close>, \<open>loadmat\<close>
  and \<open>json\<close>. Every call into a collaborator is a parameter of the model (a field of
  the record \<open>env\<close>): it takes the state of the outside world, may raise an exception of
  its own (type \<open>'x\<close>) and returns the new state. What the module itself decides -- the
  guards, the order of the calls, the arguments handed over, the exceptions it raises --
  is translated statement by statement.
\<close>

subsection \<open>Python strings\<close>

text \<open>\<open>str.lower\<close> on a byte string: the letters A to Z are mapped to a to z.\<close>

definition lower_char :: "char \<Rightarrow> char" where
  "lower_char c =
     (let n = (of_char c :: nat) in if 65 \<le> n \<and> n \<le> 90 then char_of (n + 32) else c)"

definition lower :: "string \<Rightarrow> string" where
  "lower s = map lower_char s"

text \<open>\<open>a in b\<close> on strings: \<open>a\<close> occurs in \<open>b\<close> as a contiguous run.\<close>

fun starts_with :: "string \<Rightarrow> string \<Rightarrow> bool" where
  "starts_with s [] = True"
| "starts_with [] (p # ps) = False"
| "starts_with (c # cs) (p # ps) = (c = p \<and> starts_with cs ps)"

fun str_in :: "string \<Rightarrow> string \<Rightarrow> bool" where
  "str_in a [] = (a = [])"
| "str_in a (c # cs) = (starts_with (c # cs) a \<or> str_in a cs)"

text \<open>\<open>os.path.join\<close> of two components (posixpath).\<close>

definition path_join :: "string \<Rightarrow> string \<Rightarrow> string" where
  "path_join a b =
     (if starts_with b ''/'' then b
      else if a = [] \<or> last a = CHR ''/'' then a @ b
      else a @ ''/'' @ b)"

subsection \<open>Exceptions and values\<close>

text \<open>
  The exceptions the module raises at its own statements, and \<open>Raised x\<close> for an
  exception \<open>x\<close> of a collaborator, which the module never catches.
\<close>

datatype 'x error =
    ValueError string
  | NotImplementedError string
  | Exception string
  | IOError string
  | KeyError string
  | IndexError
  | TypeError
  | Raised 'x

text \<open>
  The Python values that reach the module as \<open>nkeys\<close>/\<open>nvalues\<close>, from the caller or
  from a parsed JSON file. The payload of a float is kept abstract.
\<close>

datatype 'f pyval =
    PyNone
  | PyBool bool
  | PyInt int
  | PyFloat 'f
  | PyStr string
  | PyList "'f pyval list"
  | PyDict "(string \<times> 'f pyval) list"

text \<open>\<open>params[k]\<close>: a missing key of a dict is a KeyError, any other value is not
  subscriptable by a string.\<close>

fun getitem :: "'f pyval \<Rightarrow> string \<Rightarrow> 'x error + 'f pyval" where
  "getitem (PyDict kvs) k = (case map_of kvs k of None \<Rightarrow> Inl (KeyError k) | Some v \<Rightarrow> Inr v)"
| "getitem PyNone k = Inl TypeError"
| "getitem (PyBool b) k = Inl TypeError"
| "getitem (PyInt i) k = Inl TypeError"
| "getitem (PyFloat f) k = Inl TypeError"
| "getitem (PyStr s) k = Inl TypeError"
| "getitem (PyList xs) k = Inl TypeError"

subsection \<open>Calls that may raise, over the state of the outside world\<close>

type_synonym ('w, 'x, 'a) action = "'w \<Rightarrow> ('x error + 'a) \<times> 'w"

definition io_return :: "'a \<Rightarrow> ('w, 'x, 'a) action" where
  "io_return a = (\<lambda>w. (Inr a, w))"

definition io_raise :: "'x error \<Rightarrow> ('w, 'x, 'a) action" where
  "io_raise e = (\<lambda>w. (Inl e, w))"

definition io_bind :: "('w, 'x, 'a) action \<Rightarrow> ('a \<Rightarrow> ('w, 'x, 'b) action) \<Rightarrow> ('w, 'x, 'b) action" where
  "io_bind m f = (\<lambda>w. case m w of (Inl e, w') \<Rightarrow> (Inl e, w') | (Inr a, w') \<Rightarrow> f a w')"

text \<open>A pure step that may raise (a subscript, an iteration).\<close>

definition io_lift :: "'x error + 'a \<Rightarrow> ('w, 'x, 'a) action" where
  "io_lift r = (\<lambda>w. (r, w))"

text \<open>A call into a collaborator: its exception propagates unchanged.\<close>

definition io_call :: "('w \<Rightarrow> ('x + 'a) \<times> 'w) \<Rightarrow> ('w, 'x, 'a) action" where
  "io_call ext = (\<lambda>w. case ext w of (Inl x, w') \<Rightarrow> (Inl (Raised x), w') | (Inr a, w') \<Rightarrow> (Inr a, w'))"

subsection \<open>Arrays and collections\<close>

text \<open>A numpy array as \<open>loadmat\<close> returns it: its shape and its elements in row-major
  order.\<close>

record 'a ndarray =
  shape :: "nat list"
  elems :: "'a list"

definition ndim :: "'a ndarray \<Rightarrow> nat" where
  "ndim d = length (shape d)"

text \<open>Iterating an array walks its first axis; a 0-d array is not iterable.\<close>

definition row :: "'a ndarray \<Rightarrow> nat \<Rightarrow> 'a ndarray" where
  "row d i = (let sz = prod_list (tl (shape d)) in
     \<lparr>shape = tl (shape d), elems = take sz (drop (i * sz) (elems d))\<rparr>)"

definition iter_array :: "'a ndarray \<Rightarrow> 'x error + 'a ndarray list" where
  "iter_array d = (case shape d of [] \<Rightarrow> Inl TypeError | n # _ \<Rightarrow> Inr (map (row d) [0..<n]))"

text \<open>A record key: a linear index from \<open>arange\<close>, or a tuple built from a row of the
  key file.\<close>

datatype 'a key = Index int | Tuple "'a ndarray list"

text \<open>A key-value RDD as its partitions in order.\<close>

type_synonym ('k, 'v) rdd = "('k \<times> 'v) list list"

text \<open>Modelled from the spec: \<open>RDD.mapValues\<close> belongs to the execution engine and is
  not part of this module. It applies the transform element-wise to every value in the
  collection, preserving keys (and the partitioning).\<close>

definition mapValues :: "('v \<Rightarrow> 'u) \<Rightarrow> ('k, 'v) rdd \<Rightarrow> ('k, 'u) rdd" where
  "mapValues f data = map (map (\<lambda>(k, v). (k, f v))) data"

subsection \<open>The collaborators\<close>

record SparkContext =
  master :: string

record ThunderContext =
  sc :: SparkContext

text \<open>
  One field per collaborator call of the module, with the arguments the module passes.
  Objects the module only hands on (loaders, loaded data, parsed arrays) have the opaque
  type \<open>'o\<close>. \<open>module_dir\<close> is \<open>os.path.dirname(os.path.realpath(__file__))\<close>.
\<close>

record ('w, 'x, 'f, 'o, 'a, 'v) env =
  loadConf :: "string \<Rightarrow> string \<Rightarrow> 'w \<Rightarrow> ('x + 'f pyval) \<times> 'w"
  SeriesLoader :: "'f pyval \<Rightarrow> 'f pyval \<Rightarrow> int option \<Rightarrow> 'w \<Rightarrow> ('x + 'o) \<times> 'w"
  fromText :: "'o \<Rightarrow> string \<Rightarrow> SparkContext \<Rightarrow> 'w \<Rightarrow> ('x + 'o) \<times> 'w"
  fromBinary :: "'o \<Rightarrow> string \<Rightarrow> SparkContext \<Rightarrow> 'w \<Rightarrow> ('x + 'o) \<times> 'w"
  ImagesLoader :: "int list option \<Rightarrow> 'w \<Rightarrow> ('x + 'o) \<times> 'w"
  fromStack :: "'o \<Rightarrow> string \<Rightarrow> SparkContext \<Rightarrow> 'w \<Rightarrow> ('x + 'o) \<times> 'w"
  fromTif :: "'o \<Rightarrow> string \<Rightarrow> SparkContext \<Rightarrow> 'w \<Rightarrow> ('x + 'o) \<times> 'w"
  fromPng :: "'o \<Rightarrow> string \<Rightarrow> SparkContext \<Rightarrow> 'w \<Rightarrow> ('x + 'o) \<times> 'w"
  DataSets_make :: "SparkContext \<Rightarrow> string \<Rightarrow> (string \<times> 'f pyval) list \<Rightarrow> 'w \<Rightarrow> ('x + 'o) \<times> 'w"
  textFile :: "SparkContext \<Rightarrow> string \<Rightarrow> 'w \<Rightarrow> ('x + 'o) \<times> 'w"
  rdd_first :: "'o \<Rightarrow> 'w \<Rightarrow> ('x + string) \<times> 'w"
  json_loads :: "string \<Rightarrow> 'w \<Rightarrow> ('x + 'f pyval) \<times> 'w"
  asarray :: "'f pyval \<Rightarrow> 'w \<Rightarrow> ('x + 'o) \<times> 'w"
  loadmat :: "string \<Rightarrow> 'w \<Rightarrow> ('x + (string \<rightharpoonup> 'a ndarray)) \<times> 'w"
  parallelize :: "SparkContext \<Rightarrow> ('a key \<times> 'a ndarray) list \<Rightarrow> int \<Rightarrow> 'w
                    \<Rightarrow> ('x + ('a key, 'a ndarray) rdd) \<times> 'w"
  PreProcessor :: "string \<Rightarrow> 'w \<Rightarrow> ('x + ('v \<Rightarrow> 'v)) \<times> 'w"
  module_dir :: string

subsection \<open>loadSeries and loadImages\<close>

definition loadSeries ::
  "('w, 'x, 'f, 'o, 'a, 'v) env \<Rightarrow> ThunderContext \<Rightarrow> string \<Rightarrow> 'f pyval \<Rightarrow> 'f pyval \<Rightarrow> string
     \<Rightarrow> int option \<Rightarrow> string \<Rightarrow> ('w, 'x, 'o) action" where
  "loadSeries E self datafile nkeys nvalues inputformat minPartitions conffile =
     (if \<not> (lower inputformat = ''text'' \<or> lower inputformat = ''binary'') then
        io_raise (ValueError (''inputformat must be either 'text' or 'binary', got '' @ inputformat))
      else
        io_bind (io_call (loadConf E datafile conffile)) (\<lambda>params.
        io_bind
          (if params = PyNone then
             (if lower inputformat = ''binary'' \<and> nvalues = PyNone then
                io_raise (ValueError
                  ''Must specify nvalues for binary input if not providing a configuration file'')
              else io_call (SeriesLoader E nkeys nvalues minPartitions))
           else
             io_bind (io_lift (getitem params ''nkeys'')) (\<lambda>k.
             io_bind (io_lift (getitem params ''nvalues'')) (\<lambda>v.
             io_call (SeriesLoader E k v minPartitions))))
          (\<lambda>loader.
             if lower inputformat = ''text'' then io_call (fromText E loader datafile (sc self))
             else io_call (fromBinary E loader datafile (sc self)))))"

definition loadImages ::
  "('w, 'x, 'f, 'o, 'a, 'v) env \<Rightarrow> ThunderContext \<Rightarrow> string \<Rightarrow> int list option \<Rightarrow> string
     \<Rightarrow> ('w, 'x, 'o) action" where
  "loadImages E self datafile dims inputformat =
     (if \<not> (lower inputformat = ''stack'' \<or> lower inputformat = ''png''
             \<or> lower inputformat = ''tif'') then
        io_raise (ValueError
          (''inputformat must be either 'stack', 'png', or 'tif', got '' @ inputformat))
      else
        io_bind (io_call (ImagesLoader E dims)) (\<lambda>loader.
          if lower inputformat = ''stack'' then io_call (fromStack E loader datafile (sc self))
          else if lower inputformat = ''tif'' then io_call (fromTif E loader datafile (sc self))
          else io_call (fromPng E loader datafile (sc self))))"

subsection \<open>Example data sets\<close>

definition makeExample ::
  "('w, 'x, 'f, 'o, 'a, 'v) env \<Rightarrow> ThunderContext \<Rightarrow> string \<Rightarrow> (string \<times> 'f pyval) list
     \<Rightarrow> ('w, 'x, 'o) action" where
  "makeExample E self dataset opts = io_call (DataSets_make E (sc self) dataset opts)"

text \<open>\<open>"... '%s' ..." % dataset\<close>: the name between single quotes (character 0x27).\<close>

definition quoted :: "string \<Rightarrow> string" where
  "quoted s = CHR 0x27 # s @ [CHR 0x27]"

text \<open>The defaults of \<open>loadSeries\<close> that the two example loaders leave in place:
  \<open>nkeys=3\<close>, \<open>nvalues=None\<close>, \<open>conffile='conf.json'\<close>.\<close>

definition loadExample ::
  "('w, 'x, 'f, 'o, 'a, 'v) env \<Rightarrow> ThunderContext \<Rightarrow> string \<Rightarrow> ('w, 'x, 'o) action" where
  "loadExample E self dataset =
     (let path = module_dir E in
      if dataset = ''iris'' then
        loadSeries E self (path_join path ''data/iris.txt'') (PyInt 3) PyNone ''text'' (Some 1)
          ''conf.json''
      else if dataset = ''fish'' then
        loadSeries E self (path_join path ''data/fish.txt'') (PyInt 3) PyNone ''text'' (Some 1)
          ''conf.json''
      else io_raise (NotImplementedError (''Dataset '' @ quoted dataset @ '' not found'')))"

definition loadExampleEC2 ::
  "('w, 'x, 'f, 'o, 'a, 'v) env \<Rightarrow> ThunderContext \<Rightarrow> string \<Rightarrow> ('w, 'x, 'o \<times> 'o) action" where
  "loadExampleEC2 E self dataset =
     (if \<not> str_in ''ec'' (master (sc self)) then
        io_raise (Exception ''must be running on EC2 to load this example data sets'')
      else if dataset = ''zebrafish-optomotor-response'' then
        (let path = ''zebrafish.datasets/optomotor-response/1/'' in
         io_bind (loadSeries E self (''s3n://'' @ path @ ''data/dat_plane*.txt'') (PyInt 3) PyNone
                    ''text'' (Some 1000) ''conf.json'') (\<lambda>data.
         io_bind (io_call (textFile E (sc self) (''s3n://'' @ path @ ''params.json''))) (\<lambda>paramfile.
         io_bind (io_call (rdd_first E paramfile)) (\<lambda>line.
         io_bind (io_call (json_loads E line)) (\<lambda>params.
         io_bind (io_lift (getitem params ''trials'')) (\<lambda>trials.
         io_bind (io_call (asarray E trials)) (\<lambda>modelfile.
         io_return (data, modelfile))))))))
      else io_raise (NotImplementedError (''dataset '' @ quoted dataset @ '' not availiable'')))"

subsection \<open>Local loaders and preprocessing\<close>

text \<open>Both stubs accept any arguments and raise \<open>NotImplementedError\<close> with no
  message.\<close>

definition loadBinaryLocal ::
  "ThunderContext \<Rightarrow> 'd \<Rightarrow> 'n \<Rightarrow> 'k \<Rightarrow> 'fm \<Rightarrow> 'kf \<Rightarrow> 'm \<Rightarrow> ('w, 'x, 'r) action" where
  "loadBinaryLocal self datafile nvalues nkeys format keyfile method =
     io_raise (NotImplementedError [])"

definition loadArrayLocal ::
  "ThunderContext \<Rightarrow> 'vs \<Rightarrow> 'ks \<Rightarrow> 'm \<Rightarrow> ('w, 'x, 'r) action" where
  "loadArrayLocal self values keys method = io_raise (NotImplementedError [])"

definition preprocess ::
  "('w, 'x, 'f, 'o, 'a, 'v) env \<Rightarrow> ('k, 'v) rdd \<Rightarrow> string option \<Rightarrow> ('w, 'x, ('k, 'v) rdd) action" where
  "preprocess E data method =
     (case method of
        None \<Rightarrow> io_return data
      | Some m \<Rightarrow>
          if m \<noteq> [] then
            io_bind (io_call (PreProcessor E m)) (\<lambda>get. io_return (mapValues get data))
          else io_return data)"

text \<open>\<open>map(lambda x: tuple(x), rows)\<close>: each row is iterated into a tuple.\<close>

fun tuples :: "'a ndarray list \<Rightarrow> 'x error + 'a key list" where
  "tuples [] = Inr []"
| "tuples (x # xs) =
     (case iter_array x of
        Inl e \<Rightarrow> Inl e
      | Inr t \<Rightarrow> (case tuples xs of Inl e \<Rightarrow> Inl e | Inr ks \<Rightarrow> Inr (Tuple t # ks)))"

text \<open>\<open>arange(1, shape(data)[0]+1)\<close>: the subscript fails on the empty shape of a 0-d
  array.\<close>

definition arange_keys :: "'a ndarray \<Rightarrow> 'x error + 'a key list" where
  "arange_keys d =
     (case shape d of [] \<Rightarrow> Inl IndexError | n # _ \<Rightarrow> Inr (map Index [1..int n]))"

definition loadMatLocal ::
  "('w, 'x, 'f, 'o, 'a, 'a ndarray) env \<Rightarrow> ThunderContext \<Rightarrow> string \<Rightarrow> string \<Rightarrow> string option
     \<Rightarrow> string option \<Rightarrow> int \<Rightarrow> ('w, 'x, ('a key, 'a ndarray) rdd) action" where
  "loadMatLocal E self datafile varname keyfile filter_arg minPartitions =
     io_bind (io_call (loadmat E datafile)) (\<lambda>mat.
     io_bind (io_lift (case mat varname of None \<Rightarrow> Inl (KeyError varname) | Some d \<Rightarrow> Inr d))
       (\<lambda>data.
     if ndim data > 2 then io_raise (IOError ''input data must be one or two dimensional'')
     else
       io_bind
         (case keyfile of
            None \<Rightarrow> io_lift (arange_keys data)
          | Some kf \<Rightarrow>
              if kf \<noteq> [] then
                io_bind (io_call (loadmat E kf)) (\<lambda>kmat.
                io_bind (io_lift (case kmat ''keys'' of None \<Rightarrow> Inl (KeyError ''keys'')
                                  | Some ka \<Rightarrow> Inr ka)) (\<lambda>ka.
                io_bind (io_lift (iter_array ka)) (\<lambda>krows. io_lift (tuples krows))))
              else io_lift (arange_keys data))
         (\<lambda>keys.
       io_bind (io_lift (iter_array data)) (\<lambda>rows.
       io_bind (io_call (parallelize E (sc self) (zip keys rows) minPartitions)) (\<lambda>rdd.
       preprocess E rdd filter_arg)))))"

subsection \<open>A concrete environment\<close>

text \<open>
  Collaborators that record each call in a log (the world is the list of calls made so
  far). A loader object remembers the arguments it was built with, loaded data
  remembers the reader, the loader and the path; \<open>loadConf\<close> returns \<open>conf\<close>, \<open>loadmat\<close>
  returns the variables listed in \<open>mat\<close>, the engine puts a parallelized list into one
  partition and every preprocessing method is \<open>bump\<close>. Used to evaluate the model at
  concrete inputs.
\<close>

datatype obj =
    SeriesLoaderObj "unit pyval" "unit pyval" "int option"
  | ImagesLoaderObj "int list option"
  | Loaded string obj string
  | Opaque string

definition bump :: "int ndarray \<Rightarrow> int ndarray" where
  "bump d = d\<lparr>elems := map (\<lambda>x. x + 1) (elems d)\<rparr>"

definition log_env ::
  "unit pyval \<Rightarrow> (string \<times> int ndarray) list
     \<Rightarrow> (string list, string, unit, obj, int, int ndarray) env" where
  "log_env conf mat =
     \<lparr>loadConf = (\<lambda>d c w. (Inr conf, w @ [''loadConf''])),
      SeriesLoader = (\<lambda>k v mp w. (Inr (SeriesLoaderObj k v mp), w @ [''SeriesLoader''])),
      fromText = (\<lambda>l d s w. (Inr (Loaded ''fromText'' l d), w @ [''fromText''])),
      fromBinary = (\<lambda>l d s w. (Inr (Loaded ''fromBinary'' l d), w @ [''fromBinary''])),
      ImagesLoader = (\<lambda>dims w. (Inr (ImagesLoaderObj dims), w @ [''ImagesLoader''])),
      fromStack = (\<lambda>l d s w. (Inr (Loaded ''fromStack'' l d), w @ [''fromStack''])),
      fromTif = (\<lambda>l d s w. (Inr (Loaded ''fromTif'' l d), w @ [''fromTif''])),
      fromPng = (\<lambda>l d s w. (Inr (Loaded ''fromPng'' l d), w @ [''fromPng''])),
      DataSets_make = (\<lambda>s d opts w. (Inr (Opaque d), w @ [''make''])),
      textFile = (\<lambda>s p w. (Inr (Opaque p), w @ [''textFile''])),
      rdd_first = (\<lambda>r w. (Inr ''{}'', w @ [''first''])),
      json_loads = (\<lambda>s w. (Inr (PyDict []), w @ [''json.loads''])),
      asarray = (\<lambda>v w. (Inr (Opaque ''array''), w @ [''asarray''])),
      loadmat = (\<lambda>f w. (Inr (map_of mat), w @ [''loadmat''])),
      parallelize = (\<lambda>s xs n w. (Inr [xs], w @ [''parallelize''])),
      PreProcessor = (\<lambda>m w. (Inr bump, w @ [''PreProcessor''])),
      module_dir = ''/thunder/utils''\<rparr>"

definition local_ctx :: ThunderContext where
  "local_ctx = \<lparr>sc = \<lparr>master = ''local''\<rparr>\<rparr>"

section \<open>Properties\<close>

subsection \<open>Auxiliary facts\<close>

lemmas io_defs = io_return_def io_raise_def io_bind_def io_lift_def io_call_def

text \<open>The laws of sequencing used below.\<close>

lemma io_bind_Inr: "m w = (Inr a, w1) \<Longrightarrow> io_bind m f w = f a w1"
  by (simp add: io_bind_def)

lemma io_bind_lift_Inr: "io_bind (io_lift (Inr a)) f = f a"
  by (simp add: io_bind_def io_lift_def)

lemma io_bind_lift_Inl: "io_bind (io_lift (Inl e)) f = io_raise e"
  by (simp add: io_bind_def io_lift_def io_raise_def)

lemma io_bind_raise: "io_bind (io_raise e) f = io_raise e"
  by (simp add: io_bind_def io_raise_def)

lemma io_raise_apply: "io_raise e w = (Inl e, w)"
  by (simp add: io_raise_def)

lemma io_return_apply: "io_return a w = (Inr a, w)"
  by (simp add: io_return_def)

lemma io_call_Inr: "ext w = (Inr a, w1) \<Longrightarrow> io_call ext w = (Inr a, w1)"
  by (simp add: io_call_def)

lemma io_bind_return: "io_bind (io_return a) f = f a"
  by (simp add: io_bind_def io_return_def)

lemma lower_text: "lower ''text'' = ''text''"
  by code_simp

lemma lower_binary: "lower ''binary'' = ''binary''"
  by code_simp

lemma lower_stack: "lower ''stack'' = ''stack''"
  by code_simp

lemma lower_tif: "lower ''tif'' = ''tif''"
  by code_simp

lemma lower_png: "lower ''png'' = ''png''"
  by code_simp

text \<open>Where an exception of a sequence comes from, and which exceptions each kind of
  step can end in.\<close>

lemma io_bind_Inl:
  assumes "fst (io_bind m f w) = Inl e"
  shows "fst (m w) = Inl e \<or> (\<exists>a w'. m w = (Inr a, w') \<and> fst (f a w') = Inl e)"
  using assms by (auto simp: io_bind_def split: prod.splits sum.splits)

lemma io_call_Inl: "fst (io_call ext w) = Inl e \<Longrightarrow> \<exists>x. e = Raised x"
  by (auto simp: io_call_def split: prod.splits sum.splits)

lemma io_raise_Inl: "fst (io_raise e' w) = Inl e \<Longrightarrow> e = e'"
  by (simp add: io_raise_def)

lemma getitem_Inl: "getitem p k = Inl e \<Longrightarrow> e = KeyError k \<or> e = TypeError"
  by (cases p) (auto split: option.splits)

lemma io_lift_getitem_Inl: "fst (io_lift (getitem p k) w) = Inl e \<Longrightarrow> e = KeyError k \<or> e = TypeError"
  by (simp add: io_lift_def getitem_Inl)

text \<open>Once the format guard of \<open>loadSeries\<close> is passed, its exception is never raised:
  what follows raises the missing-\<open>nvalues\<close> error, a subscript error of the
  configuration, or passes on a collaborator's exception.\<close>

lemma loadSeries_no_format_error:
  assumes a: "lower fmt = ''text'' \<or> lower fmt = ''binary''"
  shows "fst (loadSeries E self datafile nkeys nvalues fmt mp conffile w) \<noteq>
          Inl (ValueError (''inputformat must be either 'text' or 'binary', got '' @ t))"
proof
  let ?e = "ValueError (''inputformat must be either 'text' or 'binary', got '' @ t)"
  let ?fromconf = "\<lambda>params. io_bind (io_lift (getitem params ''nkeys'')) (\<lambda>k.
             io_bind (io_lift (getitem params ''nvalues'')) (\<lambda>v.
             io_call (SeriesLoader E k v mp)))"
  let ?build = "\<lambda>params. if params = PyNone then
             (if lower fmt = ''binary'' \<and> nvalues = PyNone then
                io_raise (ValueError
                  ''Must specify nvalues for binary input if not providing a configuration file'')
              else io_call (SeriesLoader E nkeys nvalues mp))
           else ?fromconf params"
  let ?read = "\<lambda>loader. if lower fmt = ''text'' then io_call (fromText E loader datafile (sc self))
             else io_call (fromBinary E loader datafile (sc self))"
  assume "fst (loadSeries E self datafile nkeys nvalues fmt mp conffile w) = Inl ?e"
  with a have b: "fst (io_bind (io_call (loadConf E datafile conffile))
      (\<lambda>params. io_bind (?build params) ?read) w) = Inl ?e"
    by (simp add: loadSeries_def)
  from io_bind_Inl [OF b] show False
  proof (elim disjE exE conjE)
    assume "fst (io_call (loadConf E datafile conffile) w) = Inl ?e"
    then show False by (auto dest: io_call_Inl)
  next
    fix params w1
    assume c: "fst (io_bind (?build params) ?read w1) = Inl ?e"
    from io_bind_Inl [OF c] show False
    proof (elim disjE exE conjE)
      assume d: "fst (?build params w1) = Inl ?e"
      show False
      proof (cases "params = PyNone")
        case True
        with d show False
          by (auto split: if_splits dest: io_raise_Inl io_call_Inl)
      next
        case False
        with d have "fst (?fromconf params w1) = Inl ?e" by simp
        then show False
          by (auto dest!: io_bind_Inl dest: io_call_Inl io_lift_getitem_Inl)
      qed
    next
      fix loader w2
      assume "fst (?read loader w2) = Inl ?e"
      then show False by (auto split: if_splits dest: io_call_Inl)
    qed
  qed
qed

lemma loadImages_no_ValueError:
  assumes a: "lower fmt = ''stack'' \<or> lower fmt = ''tif'' \<or> lower fmt = ''png''"
  shows "fst (loadImages E self datafile dims fmt w) \<noteq> Inl (ValueError msg)"
proof
  assume "fst (loadImages E self datafile dims fmt w) = Inl (ValueError msg)"
  with a have b: "fst (io_bind (io_call (ImagesLoader E dims)) (\<lambda>loader.
          if lower fmt = ''stack'' then io_call (fromStack E loader datafile (sc self))
          else if lower fmt = ''tif'' then io_call (fromTif E loader datafile (sc self))
          else io_call (fromPng E loader datafile (sc self))) w) = Inl (ValueError msg)"
    by (auto simp: loadImages_def)
  from io_bind_Inl [OF b] show False
    by (auto split: if_splits dest: io_call_Inl)
qed

text \<open>\<open>str_in\<close> is the contiguous-sublist relation of the library.\<close>

lemma starts_with_prefix: "starts_with s p \<longleftrightarrow> prefix p s"
  by (induction s p rule: starts_with.induct) auto

lemma str_in_sublist: "str_in a b \<longleftrightarrow> sublist a b"
  by (induction b) (auto simp: starts_with_prefix sublist_Cons_right)

text \<open>\<open>mapValues\<close> and \<open>preprocess\<close> leave the keys of every partition in place.\<close>

lemma mapValues_keys: "map (map fst) (mapValues f data) = map (map fst) data"
  by (simp add: mapValues_def comp_def case_prod_beta)

lemma mapValues_values: "map (map snd) (mapValues f data) = map (map (\<lambda>kv. f (snd kv))) data"
  by (simp add: mapValues_def comp_def case_prod_beta)

lemma mapValues_concat_keys: "map fst (concat (mapValues f data)) = map fst (concat data)"
  by (simp add: mapValues_def map_concat comp_def case_prod_beta)

lemma preprocess_keys:
  assumes "preprocess E data method w = (Inr out, w')"
  shows "map (map fst) out = map (map fst) data"
proof (cases "method = None \<or> method = Some []")
  case True
  with assms show ?thesis by (auto simp: preprocess_def io_return_apply)
next
  case False
  then obtain m where m: "method = Some m" "m \<noteq> []" by auto
  with assms have "io_bind (io_call (PreProcessor E m)) (\<lambda>get. io_return (mapValues get data)) w
      = (Inr out, w')"
    by (simp add: preprocess_def)
  then obtain get where "out = mapValues get data"
    by (auto simp: io_defs split: prod.splits sum.splits)
  then show ?thesis by (simp add: mapValues_keys)
qed

subsection \<open>Format tags\<close>

text \<open>
  Claim C3, as the code has it. The guard of \<open>loadSeries\<close> and of \<open>loadImages\<close> compares
  the lowercased tag: every tag whose lowercase form is outside \<open>{text, binary}\<close>
  (respectively \<open>{stack, tif, png}\<close>) is rejected with a \<open>ValueError\<close> whose message
  ends with the tag as given, and the world is left as it was: no loader, no
  configuration lookup and no engine call has happened.
\<close>

theorem format_guard:
  "(lower fmt \<notin> {''text'', ''binary''} \<longrightarrow>
      loadSeries E self datafile nkeys nvalues fmt mp conffile w =
        (Inl (ValueError (''inputformat must be either 'text' or 'binary', got '' @ fmt)), w))
   \<and> (lower fmt \<notin> {''stack'', ''tif'', ''png''} \<longrightarrow>
      loadImages E self datafile dims fmt w =
        (Inl (ValueError (''inputformat must be either 'stack', 'png', or 'tif', got '' @ fmt)), w))"
  by (simp add: loadSeries_def loadImages_def io_raise_def)

theorem format_guard_witness:
  "lower ''jpeg'' \<notin> {''text'', ''binary''}
   \<and> loadSeries (log_env PyNone []) local_ctx ''d'' (PyInt 3) PyNone ''jpeg'' None ''conf.json'' [] =
        (Inl (ValueError (''inputformat must be either 'text' or 'binary', got jpeg'')), [])
   \<and> lower ''jpeg'' \<notin> {''stack'', ''tif'', ''png''}
   \<and> loadImages (log_env PyNone []) local_ctx ''d'' None ''jpeg'' [] =
        (Inl (ValueError (''inputformat must be either 'stack', 'png', or 'tif', got jpeg'')), [])"
proof -
  have h: "lower ''jpeg'' = ''jpeg''" by code_simp
  show ?thesis
    using format_guard [of "''jpeg''" "log_env PyNone []" local_ctx "''d''" "PyInt 3" PyNone None
        "''conf.json''" "[]" None]
    by (simp add: h)
qed

text \<open>
  The claim as worded ranges over every tag outside the two (three) lowercase names. The
  tags \<open>TEXT\<close> and \<open>Tif\<close> are outside these sets and are accepted: the calls below
  reach the text reader and the tif reader.
\<close>

theorem format_guard_counterexample:
  "''TEXT'' \<notin> {''text'', ''binary''}
   \<and> loadSeries (log_env PyNone []) local_ctx ''d'' (PyInt 3) PyNone ''TEXT'' None ''conf.json'' [] =
        (Inr (Loaded ''fromText'' (SeriesLoaderObj (PyInt 3) PyNone None) ''d''),
         [''loadConf'', ''SeriesLoader'', ''fromText''])
   \<and> ''Tif'' \<notin> {''stack'', ''tif'', ''png''}
   \<and> loadImages (log_env PyNone []) local_ctx ''d'' None ''Tif'' [] =
        (Inr (Loaded ''fromTif'' (ImagesLoaderObj None) ''d''), [''ImagesLoader'', ''fromTif''])"
  by code_simp

text \<open>
  Claim C10, as the code has it. Format tags are matched without regard to case. A tag
  whose lowercase form is \<open>text\<close> or \<open>binary\<close> makes \<open>loadSeries\<close> behave exactly as
  the lowercase tag does, the unrecognized-format error is not raised, and the reader
  of that format is reached: with no configuration found (and, for binary, an
  \<open>nvalues\<close> argument) the loader is built from the caller's values and handed to
  \<open>fromText\<close> or \<open>fromBinary\<close>; with a configuration holding \<open>nkeys\<close> and \<open>nvalues\<close>
  the loader is built from the file's values and handed to the same reader. A binary
  tag in any spelling with no \<open>nvalues\<close> and no configuration raises the
  missing-\<open>nvalues\<close> \<open>ValueError\<close>. A tag whose lowercase form is \<open>stack\<close>, \<open>tif\<close> or
  \<open>png\<close> makes \<open>loadImages\<close> behave exactly as the lowercase tag does: it builds the
  loader and calls \<open>fromStack\<close>, \<open>fromTif\<close> or \<open>fromPng\<close>, and raises no \<open>ValueError\<close>.
\<close>

theorem format_tag_case_insensitive:
  "(lower fmt \<in> {''text'', ''binary''} \<longrightarrow>
      loadSeries E self datafile nkeys nvalues fmt mp conffile w =
        loadSeries E self datafile nkeys nvalues (lower fmt) mp conffile w
      \<and> fst (loadSeries E self datafile nkeys nvalues fmt mp conffile w) \<noteq>
          Inl (ValueError (''inputformat must be either 'text' or 'binary', got '' @ fmt))
      \<and> (loadConf E datafile conffile w = (Inr PyNone, w1)
            \<and> (lower fmt = ''text'' \<or> nvalues \<noteq> PyNone) \<longrightarrow>
          loadSeries E self datafile nkeys nvalues fmt mp conffile w =
            io_bind (io_call (SeriesLoader E nkeys nvalues mp))
              (\<lambda>loader. if lower fmt = ''text''
                 then io_call (fromText E loader datafile (sc self))
                 else io_call (fromBinary E loader datafile (sc self))) w1)
      \<and> (loadConf E datafile conffile w = (Inr PyNone, w1)
            \<and> lower fmt = ''binary'' \<and> nvalues = PyNone \<longrightarrow>
          loadSeries E self datafile nkeys nvalues fmt mp conffile w =
            (Inl (ValueError
              ''Must specify nvalues for binary input if not providing a configuration file''), w1))
      \<and> (loadConf E datafile conffile w = (Inr (PyDict kvs), w1)
            \<and> map_of kvs ''nkeys'' = Some k \<and> map_of kvs ''nvalues'' = Some v \<longrightarrow>
          loadSeries E self datafile nkeys nvalues fmt mp conffile w =
            io_bind (io_call (SeriesLoader E k v mp))
              (\<lambda>loader. if lower fmt = ''text''
                 then io_call (fromText E loader datafile (sc self))
                 else io_call (fromBinary E loader datafile (sc self))) w1))
   \<and> (lower fmt \<in> {''stack'', ''tif'', ''png''} \<longrightarrow>
      loadImages E self datafile dims fmt w = loadImages E self datafile dims (lower fmt) w
      \<and> (\<forall>msg. fst (loadImages E self datafile dims fmt w) \<noteq> Inl (ValueError msg))
      \<and> loadImages E self datafile dims fmt w =
          io_bind (io_call (ImagesLoader E dims))
            (\<lambda>loader. if lower fmt = ''stack'' then io_call (fromStack E loader datafile (sc self))
               else if lower fmt = ''tif'' then io_call (fromTif E loader datafile (sc self))
               else io_call (fromPng E loader datafile (sc self))) w)"
proof (intro conjI impI allI)
  assume a: "lower fmt \<in> {''text'', ''binary''}"
  then show "loadSeries E self datafile nkeys nvalues fmt mp conffile w =
        loadSeries E self datafile nkeys nvalues (lower fmt) mp conffile w"
    by (auto simp: loadSeries_def lower_text lower_binary)
  from a show "fst (loadSeries E self datafile nkeys nvalues fmt mp conffile w) \<noteq>
          Inl (ValueError (''inputformat must be either 'text' or 'binary', got '' @ fmt))"
    by (intro loadSeries_no_format_error) simp
  {
    assume "loadConf E datafile conffile w = (Inr PyNone, w1)
        \<and> (lower fmt = ''text'' \<or> nvalues \<noteq> PyNone)"
    with a show "loadSeries E self datafile nkeys nvalues fmt mp conffile w =
        io_bind (io_call (SeriesLoader E nkeys nvalues mp))
          (\<lambda>loader. if lower fmt = ''text''
             then io_call (fromText E loader datafile (sc self))
             else io_call (fromBinary E loader datafile (sc self))) w1"
      by (auto simp: loadSeries_def io_bind_Inr io_call_Inr)
  }
  {
    assume "loadConf E datafile conffile w = (Inr PyNone, w1)
        \<and> lower fmt = ''binary'' \<and> nvalues = PyNone"
    then show "loadSeries E self datafile nkeys nvalues fmt mp conffile w =
        (Inl (ValueError
          ''Must specify nvalues for binary input if not providing a configuration file''), w1)"
      by (auto simp: loadSeries_def io_bind_Inr io_call_Inr io_bind_raise io_raise_apply)
  }
  {
    assume "loadConf E datafile conffile w = (Inr (PyDict kvs), w1)
        \<and> map_of kvs ''nkeys'' = Some k \<and> map_of kvs ''nvalues'' = Some v"
    with a show "loadSeries E self datafile nkeys nvalues fmt mp conffile w =
        io_bind (io_call (SeriesLoader E k v mp))
          (\<lambda>loader. if lower fmt = ''text''
             then io_call (fromText E loader datafile (sc self))
             else io_call (fromBinary E loader datafile (sc self))) w1"
      by (auto simp: loadSeries_def io_bind_Inr io_call_Inr io_bind_lift_Inr)
  }
next
  assume a: "lower fmt \<in> {''stack'', ''tif'', ''png''}"
  then show "loadImages E self datafile dims fmt w = loadImages E self datafile dims (lower fmt) w"
    by (auto simp: loadImages_def lower_stack lower_tif lower_png)
  from a show "loadImages E self datafile dims fmt w =
      io_bind (io_call (ImagesLoader E dims))
        (\<lambda>loader. if lower fmt = ''stack'' then io_call (fromStack E loader datafile (sc self))
           else if lower fmt = ''tif'' then io_call (fromTif E loader datafile (sc self))
           else io_call (fromPng E loader datafile (sc self))) w"
    by (auto simp: loadImages_def)
  fix msg
  from a show "fst (loadImages E self datafile dims fmt w) \<noteq> Inl (ValueError msg)"
    by (intro loadImages_no_ValueError) simp
qed

theorem format_tag_case_insensitive_witness:
  "lower ''Text'' \<in> {''text'', ''binary''}
   \<and> loadConf (log_env PyNone []) ''d'' ''conf.json'' [] = (Inr PyNone, [''loadConf''])
   \<and> loadSeries (log_env PyNone []) local_ctx ''d'' (PyInt 3) PyNone ''Text'' None ''conf.json'' [] =
        (Inr (Loaded ''fromText'' (SeriesLoaderObj (PyInt 3) PyNone None) ''d''),
         [''loadConf'', ''SeriesLoader'', ''fromText''])
   \<and> lower ''BINARY'' \<in> {''text'', ''binary''} \<and> PyInt 8 \<noteq> (PyNone :: unit pyval)
   \<and> loadSeries (log_env PyNone []) local_ctx ''d'' (PyInt 3) (PyInt 8) ''BINARY'' None ''conf.json'' [] =
        (Inr (Loaded ''fromBinary'' (SeriesLoaderObj (PyInt 3) (PyInt 8) None) ''d''),
         [''loadConf'', ''SeriesLoader'', ''fromBinary''])
   \<and> loadSeries (log_env PyNone []) local_ctx ''d'' (PyInt 3) PyNone ''BINARY'' None ''conf.json'' [] =
        (Inl (ValueError
          ''Must specify nvalues for binary input if not providing a configuration file''),
         [''loadConf''])
   \<and> loadConf (log_env (PyDict [(''nkeys'', PyInt 2), (''nvalues'', PyInt 7)]) []) ''d''
        ''conf.json'' [] =
        (Inr (PyDict [(''nkeys'', PyInt 2), (''nvalues'', PyInt 7)]), [''loadConf''])
   \<and> loadSeries (log_env (PyDict [(''nkeys'', PyInt 2), (''nvalues'', PyInt 7)]) []) local_ctx ''d''
        (PyInt 3) PyNone ''Binary'' None ''conf.json'' [] =
        (Inr (Loaded ''fromBinary'' (SeriesLoaderObj (PyInt 2) (PyInt 7) None) ''d''),
         [''loadConf'', ''SeriesLoader'', ''fromBinary''])
   \<and> lower ''PNG'' \<in> {''stack'', ''tif'', ''png''}
   \<and> loadImages (log_env PyNone []) local_ctx ''d'' None ''PNG'' [] =
        (Inr (Loaded ''fromPng'' (ImagesLoaderObj None) ''d''), [''ImagesLoader'', ''fromPng''])
   \<and> lower ''Stack'' \<in> {''stack'', ''tif'', ''png''}
   \<and> loadImages (log_env PyNone []) local_ctx ''d'' (Some [2, 3]) ''Stack'' [] =
        (Inr (Loaded ''fromStack'' (ImagesLoaderObj (Some [2, 3])) ''d''),
         [''ImagesLoader'', ''fromStack''])"
proof -
  let ?kvs = "[(''nkeys'', PyInt 2), (''nvalues'', PyInt 7 :: unit pyval)]"
  let ?E = "log_env PyNone []"
  let ?C = "log_env (PyDict ?kvs) []"
  have lt: "lower ''Text'' = ''text''" by code_simp
  have lb: "lower ''BINARY'' = ''binary''" by code_simp
  have lb': "lower ''Binary'' = ''binary''" by code_simp
  have lp: "lower ''PNG'' = ''png''" by code_simp
  have ls: "lower ''Stack'' = ''stack''" by code_simp
  have h1: "loadConf ?E ''d'' ''conf.json'' [] = (Inr PyNone, [''loadConf''])"
    by (simp add: log_env_def)
  have h2: "loadConf ?C ''d'' ''conf.json'' [] = (Inr (PyDict ?kvs), [''loadConf''])"
    by (simp add: log_env_def)
  have m_text: "lower ''Text'' \<in> {''text'', ''binary''}" by (simp add: lt)
  have m_bin: "lower ''BINARY'' \<in> {''text'', ''binary''}" by (simp add: lb)
  have m_bin2: "lower ''Binary'' \<in> {''text'', ''binary''}" by (simp add: lb')
  have m_png: "lower ''PNG'' \<in> {''stack'', ''tif'', ''png''}" by (simp add: lp)
  have m_stack: "lower ''Stack'' \<in> {''stack'', ''tif'', ''png''}" by (simp add: ls)
  have ha: "loadConf ?E ''d'' ''conf.json'' [] = (Inr PyNone, [''loadConf''])
      \<and> (lower ''Text'' = ''text'' \<or> (PyNone :: unit pyval) \<noteq> PyNone)"
    using h1 by (simp add: lt)
  have a: "loadSeries ?E local_ctx ''d'' (PyInt 3) PyNone ''Text'' None ''conf.json'' [] =
      (Inr (Loaded ''fromText'' (SeriesLoaderObj (PyInt 3) PyNone None) ''d''),
       [''loadConf'', ''SeriesLoader'', ''fromText''])"
    using format_tag_case_insensitive [where fmt = "''Text''" and E = ?E and self = local_ctx
        and datafile = "''d''" and nkeys = "PyInt 3" and nvalues = PyNone and mp = None
        and conffile = "''conf.json''" and w = "[]" and ?w1.0 = "[''loadConf'']",
        THEN conjunct1, THEN mp, OF m_text, THEN conjunct2, THEN conjunct2, THEN conjunct1,
        THEN mp, OF ha]
    by (simp add: lt log_env_def io_defs)
  have hb: "loadConf ?E ''d'' ''conf.json'' [] = (Inr PyNone, [''loadConf''])
      \<and> (lower ''BINARY'' = ''text'' \<or> PyInt 8 \<noteq> (PyNone :: unit pyval))"
    using h1 by simp
  have b: "loadSeries ?E local_ctx ''d'' (PyInt 3) (PyInt 8) ''BINARY'' None ''conf.json'' [] =
      (Inr (Loaded ''fromBinary'' (SeriesLoaderObj (PyInt 3) (PyInt 8) None) ''d''),
       [''loadConf'', ''SeriesLoader'', ''fromBinary''])"
    using format_tag_case_insensitive [where fmt = "''BINARY''" and E = ?E and self = local_ctx
        and datafile = "''d''" and nkeys = "PyInt 3" and nvalues = "PyInt 8" and mp = None
        and conffile = "''conf.json''" and w = "[]" and ?w1.0 = "[''loadConf'']",
        THEN conjunct1, THEN mp, OF m_bin, THEN conjunct2, THEN conjunct2, THEN conjunct1,
        THEN mp, OF hb]
    by (simp add: lb log_env_def io_defs)
  have hc: "loadConf ?E ''d'' ''conf.json'' [] = (Inr PyNone, [''loadConf''])
      \<and> lower ''BINARY'' = ''binary'' \<and> (PyNone :: unit pyval) = PyNone"
    using h1 by (simp add: lb)
  have c: "loadSeries ?E local_ctx ''d'' (PyInt 3) PyNone ''BINARY'' None ''conf.json'' [] =
      (Inl (ValueError
        ''Must specify nvalues for binary input if not providing a configuration file''),
       [''loadConf''])"
    using format_tag_case_insensitive [where fmt = "''BINARY''" and E = ?E and self = local_ctx
        and datafile = "''d''" and nkeys = "PyInt 3" and nvalues = PyNone and mp = None
        and conffile = "''conf.json''" and w = "[]" and ?w1.0 = "[''loadConf'']",
        THEN conjunct1, THEN mp, OF m_bin, THEN conjunct2, THEN conjunct2, THEN conjunct2,
        THEN conjunct1, THEN mp, OF hc] .
  have hd: "loadConf ?C ''d'' ''conf.json'' [] = (Inr (PyDict ?kvs), [''loadConf''])
      \<and> map_of ?kvs ''nkeys'' = Some (PyInt 2) \<and> map_of ?kvs ''nvalues'' = Some (PyInt 7)"
    using h2 by simp
  have d: "loadSeries ?C local_ctx ''d'' (PyInt 3) PyNone ''Binary'' None ''conf.json'' [] =
      (Inr (Loaded ''fromBinary'' (SeriesLoaderObj (PyInt 2) (PyInt 7) None) ''d''),
       [''loadConf'', ''SeriesLoader'', ''fromBinary''])"
    using format_tag_case_insensitive [where fmt = "''Binary''" and E = ?C and self = local_ctx
        and datafile = "''d''" and nkeys = "PyInt 3" and nvalues = PyNone and mp = None
        and conffile = "''conf.json''" and w = "[]" and ?w1.0 = "[''loadConf'']"
        and kvs = ?kvs and k = "PyInt 2" and v = "PyInt 7",
        THEN conjunct1, THEN mp, OF m_bin2, THEN conjunct2, THEN conjunct2, THEN conjunct2,
        THEN conjunct2, THEN mp, OF hd]
    by (simp add: lb' log_env_def io_defs)
  have e: "loadImages ?E local_ctx ''d'' None ''PNG'' [] =
      (Inr (Loaded ''fromPng'' (ImagesLoaderObj None) ''d''), [''ImagesLoader'', ''fromPng''])"
    using format_tag_case_insensitive [where fmt = "''PNG''" and E = ?E and self = local_ctx
        and datafile = "''d''" and dims = None and w = "[]",
        THEN conjunct2, THEN mp, OF m_png, THEN conjunct2, THEN conjunct2]
    by (simp add: lp log_env_def io_defs)
  have f: "loadImages ?E local_ctx ''d'' (Some [2, 3]) ''Stack'' [] =
      (Inr (Loaded ''fromStack'' (ImagesLoaderObj (Some [2, 3])) ''d''),
       [''ImagesLoader'', ''fromStack''])"
    using format_tag_case_insensitive [where fmt = "''Stack''" and E = ?E and self = local_ctx
        and datafile = "''d''" and dims = "Some [2, 3]" and w = "[]",
        THEN conjunct2, THEN mp, OF m_stack, THEN conjunct2, THEN conjunct2]
    by (simp add: ls log_env_def io_defs)
  from m_text m_bin m_png m_stack h1 h2 a b c d e f show ?thesis
    by simp
qed

text \<open>
  The claim as worded says that no invalid-argument error is raised for such a tag. The
  tag \<open>BINARY\<close> with no \<open>nvalues\<close> argument and no configuration file passes the format
  guard and is then refused by the check for \<open>nvalues\<close>, with a \<open>ValueError\<close>.
\<close>

theorem format_tag_case_insensitive_counterexample:
  "lower ''BINARY'' \<in> {''text'', ''binary''}
   \<and> loadSeries (log_env PyNone []) local_ctx ''d'' (PyInt 3) PyNone ''BINARY'' None ''conf.json'' [] =
        (Inl (ValueError
          ''Must specify nvalues for binary input if not providing a configuration file''),
         [''loadConf''])"
  by code_simp

subsection \<open>Configuration of a series load\<close>

text \<open>
  Claim C1. When the configuration lookup of \<open>loadSeries\<close> finds a file, given here as
  the dictionary it was parsed into with entries \<open>nkeys\<close> and \<open>nvalues\<close>, the loader
  is constructed with the file's two values and read in the requested format. The
  result does not mention the caller's \<open>nkeys\<close> and \<open>nvalues\<close>: the file's values take
  their place whatever the caller passed.
\<close>

theorem conf_file_overrides_arguments:
  assumes "lower fmt = ''text'' \<or> lower fmt = ''binary''"
    and "loadConf E datafile conffile w = (Inr (PyDict kvs), w1)"
    and "map_of kvs ''nkeys'' = Some k"
    and "map_of kvs ''nvalues'' = Some v"
  shows "loadSeries E self datafile nkeys nvalues fmt mp conffile w =
      io_bind (io_call (SeriesLoader E k v mp))
        (\<lambda>loader. if lower fmt = ''text'' then io_call (fromText E loader datafile (sc self))
                   else io_call (fromBinary E loader datafile (sc self))) w1"
proof -
  have "io_call (loadConf E datafile conffile) w = (Inr (PyDict kvs), w1)"
    using assms(2) by (rule io_call_Inr)
  with assms(1,3,4) show ?thesis
    by (simp add: loadSeries_def io_bind_Inr io_bind_lift_Inr)
qed

theorem conf_file_overrides_arguments_witness:
  "(lower ''binary'' = ''text'' \<or> lower ''binary'' = ''binary'')
   \<and> loadConf (log_env (PyDict [(''nkeys'', PyInt 2), (''nvalues'', PyInt 7)]) []) ''d''
        ''conf.json'' [] =
        (Inr (PyDict [(''nkeys'', PyInt 2), (''nvalues'', PyInt 7)]), [''loadConf''])
   \<and> map_of [(''nkeys'', PyInt 2), (''nvalues'', PyInt 7 :: unit pyval)] ''nkeys'' = Some (PyInt 2)
   \<and> map_of [(''nkeys'', PyInt 2), (''nvalues'', PyInt 7 :: unit pyval)] ''nvalues'' = Some (PyInt 7)
   \<and> loadSeries (log_env (PyDict [(''nkeys'', PyInt 2), (''nvalues'', PyInt 7)]) []) local_ctx ''d''
        (PyInt 3) (PyInt 9) ''binary'' None ''conf.json'' [] =
        (Inr (Loaded ''fromBinary'' (SeriesLoaderObj (PyInt 2) (PyInt 7) None) ''d''),
         [''loadConf'', ''SeriesLoader'', ''fromBinary''])"
proof -
  let ?kvs = "[(''nkeys'', PyInt 2), (''nvalues'', PyInt 7 :: unit pyval)]"
  let ?E = "log_env (PyDict ?kvs) []"
  have f: "lower ''binary'' = ''text'' \<or> lower ''binary'' = ''binary''"
    by (simp add: lower_binary)
  have h: "loadConf ?E ''d'' ''conf.json'' [] = (Inr (PyDict ?kvs), [''loadConf''])"
    by (simp add: log_env_def)
  have k: "map_of ?kvs ''nkeys'' = Some (PyInt 2)" by simp
  have v: "map_of ?kvs ''nvalues'' = Some (PyInt 7)" by simp
  have "loadSeries ?E local_ctx ''d'' (PyInt 3) (PyInt 9) ''binary'' None ''conf.json'' [] =
      (Inr (Loaded ''fromBinary'' (SeriesLoaderObj (PyInt 2) (PyInt 7) None) ''d''),
       [''loadConf'', ''SeriesLoader'', ''fromBinary''])"
    using conf_file_overrides_arguments [OF f h k v, of local_ctx "PyInt 3" "PyInt 9" None]
    by (simp add: lower_binary log_env_def io_defs)
  with f h k v show ?thesis by simp
qed

text \<open>
  Claim C2, as the code has it. For a binary load: with no configuration found and no
  \<open>nvalues\<close> argument, \<open>loadSeries\<close> raises the missing-\<open>nvalues\<close> \<open>ValueError\<close> after
  the configuration lookup and before any loader is built or called; with no
  configuration found and an \<open>nvalues\<close> argument it goes on to the binary reader with
  the caller's values; with a configuration that holds both \<open>nkeys\<close> and \<open>nvalues\<close> it
  goes on to the binary reader with the file's values.
\<close>

theorem binary_needs_nvalues:
  assumes "lower fmt = ''binary''"
  shows "(loadConf E datafile conffile w = (Inr PyNone, w1) \<and> nvalues = PyNone \<longrightarrow>
            loadSeries E self datafile nkeys nvalues fmt mp conffile w =
              (Inl (ValueError
                ''Must specify nvalues for binary input if not providing a configuration file''), w1))
       \<and> (loadConf E datafile conffile w = (Inr PyNone, w1) \<and> nvalues \<noteq> PyNone \<longrightarrow>
            loadSeries E self datafile nkeys nvalues fmt mp conffile w =
              io_bind (io_call (SeriesLoader E nkeys nvalues mp))
                (\<lambda>loader. io_call (fromBinary E loader datafile (sc self))) w1)
       \<and> (loadConf E datafile conffile w = (Inr (PyDict kvs), w1)
            \<and> map_of kvs ''nkeys'' = Some k \<and> map_of kvs ''nvalues'' = Some v \<longrightarrow>
            loadSeries E self datafile nkeys nvalues fmt mp conffile w =
              io_bind (io_call (SeriesLoader E k v mp))
                (\<lambda>loader. io_call (fromBinary E loader datafile (sc self))) w1)"
  using assms
  by (auto simp: loadSeries_def io_bind_Inr io_call_Inr io_bind_lift_Inr io_bind_raise io_raise_apply)

theorem binary_needs_nvalues_witness:
  "lower ''binary'' = ''binary''
   \<and> loadConf (log_env PyNone []) ''d'' ''conf.json'' [] = (Inr PyNone, [''loadConf''])
   \<and> loadSeries (log_env PyNone []) local_ctx ''d'' (PyInt 3) PyNone ''binary'' None ''conf.json'' [] =
        (Inl (ValueError
          ''Must specify nvalues for binary input if not providing a configuration file''),
         [''loadConf''])
   \<and> PyInt 8 \<noteq> (PyNone :: unit pyval)
   \<and> loadSeries (log_env PyNone []) local_ctx ''d'' (PyInt 3) (PyInt 8) ''binary'' None ''conf.json'' [] =
        (Inr (Loaded ''fromBinary'' (SeriesLoaderObj (PyInt 3) (PyInt 8) None) ''d''),
         [''loadConf'', ''SeriesLoader'', ''fromBinary''])
   \<and> loadConf (log_env (PyDict [(''nkeys'', PyInt 2), (''nvalues'', PyInt 7)]) []) ''d''
        ''conf.json'' [] =
        (Inr (PyDict [(''nkeys'', PyInt 2), (''nvalues'', PyInt 7)]), [''loadConf''])
   \<and> loadSeries (log_env (PyDict [(''nkeys'', PyInt 2), (''nvalues'', PyInt 7)]) []) local_ctx ''d''
        (PyInt 3) PyNone ''binary'' None ''conf.json'' [] =
        (Inr (Loaded ''fromBinary'' (SeriesLoaderObj (PyInt 2) (PyInt 7) None) ''d''),
         [''loadConf'', ''SeriesLoader'', ''fromBinary''])"
proof -
  let ?conf = "PyDict [(''nkeys'', PyInt 2), (''nvalues'', PyInt 7)] :: unit pyval"
  have h1: "loadConf (log_env PyNone []) ''d'' ''conf.json'' [] = (Inr PyNone, [''loadConf''])"
    by (simp add: log_env_def)
  have h2: "loadConf (log_env ?conf []) ''d'' ''conf.json'' [] = (Inr ?conf, [''loadConf''])"
    by (simp add: log_env_def)
  show ?thesis
    using h1 h2
      binary_needs_nvalues [OF lower_binary, of "log_env PyNone []" "''d''" "''conf.json''" "[]"
        "[''loadConf'']" PyNone local_ctx "PyInt 3" None]
      binary_needs_nvalues [OF lower_binary, of "log_env PyNone []" "''d''" "''conf.json''" "[]"
        "[''loadConf'']" "PyInt 8" local_ctx "PyInt 3" None]
      binary_needs_nvalues [OF lower_binary, of "log_env ?conf []" "''d''" "''conf.json''" "[]"
        "[''loadConf'']" PyNone local_ctx "PyInt 3" None "[(''nkeys'', PyInt 2), (''nvalues'', PyInt 7)]"
        "PyInt 2" "PyInt 7"]
    by (simp add: lower_binary log_env_def io_defs)
qed

text \<open>
  The claim as worded asks only that the configuration file contain \<open>nvalues\<close>. A file
  with \<open>nvalues\<close> and without \<open>nkeys\<close> does not reach the binary reader: the subscript
  \<open>params['nkeys']\<close> raises \<open>KeyError\<close> right after the lookup.
\<close>

theorem binary_needs_nvalues_counterexample:
  "loadSeries (log_env (PyDict [(''nvalues'', PyInt 5)]) []) local_ctx ''d'' (PyInt 3) PyNone
      ''binary'' None ''conf.json'' [] = (Inl (KeyError ''nkeys''), [''loadConf''])"
  by code_simp

subsection \<open>Preprocessing\<close>

text \<open>
  Claim C4. \<open>preprocess\<close> with no method name (\<open>None\<close>) returns the collection it was
  given, raises nothing and calls no collaborator.
\<close>

theorem preprocess_without_method:
  "preprocess E data None w = (Inr data, w)"
  by (simp add: preprocess_def io_return_def)

text \<open>
  Claim C9. Given a method name (a non-empty string, the code's test being
  \<open>if method:\<close>) whose transform the \<open>PreProcessor\<close> lookup returns, \<open>preprocess\<close>
  returns the collection mapped by \<open>mapValues\<close>: in every partition the keys are the
  same, in the same order, and every value is the transform of the old one. The keys
  are unchanged in whatever \<open>preprocess\<close> returns, for every method argument.
\<close>

theorem preprocess_maps_values:
  "(m \<noteq> [] \<and> PreProcessor E m w = (Inr get, w1) \<longrightarrow>
      preprocess E data (Some m) w = (Inr (mapValues get data), w1)
      \<and> map (map fst) (mapValues get data) = map (map fst) data
      \<and> map (map snd) (mapValues get data) = map (map (\<lambda>kv. get (snd kv))) data)
   \<and> (preprocess E data method w = (Inr out, w2) \<longrightarrow> map (map fst) out = map (map fst) data)"
proof (intro conjI impI)
  assume "m \<noteq> [] \<and> PreProcessor E m w = (Inr get, w1)"
  then show "preprocess E data (Some m) w = (Inr (mapValues get data), w1)"
    by (simp add: preprocess_def io_bind_Inr io_call_Inr io_return_apply)
next
  show "map (map fst) (mapValues get data) = map (map fst) data"
    by (rule mapValues_keys)
next
  show "map (map snd) (mapValues get data) = map (map (\<lambda>kv. get (snd kv))) data"
    by (rule mapValues_values)
next
  assume "preprocess E data method w = (Inr out, w2)"
  then show "map (map fst) out = map (map fst) data"
    by (rule preprocess_keys)
qed

theorem preprocess_maps_values_witness:
  "''sub'' \<noteq> []
   \<and> PreProcessor (log_env PyNone []) ''sub'' [] = (Inr bump, [''PreProcessor''])
   \<and> preprocess (log_env PyNone []) [[(Index 1, \<lparr>shape = [2], elems = [10, 20]\<rparr>)]] (Some ''sub'') [] =
       (Inr [[(Index 1, \<lparr>shape = [2], elems = [11, 21]\<rparr>)]], [''PreProcessor''])"
proof -
  have h: "PreProcessor (log_env PyNone []) ''sub'' [] = (Inr bump, [''PreProcessor''])"
    by (simp add: log_env_def)
  show ?thesis
    using h preprocess_maps_values [of "''sub''" "log_env PyNone []" "[]" bump "[''PreProcessor'']"
        "[[(Index 1, \<lparr>shape = [2], elems = [10, 20]\<rparr>)]]" "Some ''sub''"
        "[[(Index 1, \<lparr>shape = [2], elems = [11, 21]\<rparr>)]]" "[''PreProcessor'']"]
    by (simp add: mapValues_def bump_def)
qed

subsection \<open>Example data sets and local loaders\<close>

text \<open>
  Claim C5. \<open>loadExample\<close> knows the names \<open>iris\<close> and \<open>fish\<close>, compared exactly. Each
  is loaded by \<open>loadSeries\<close> from the bundled file \<open>data/iris.txt\<close> (\<open>data/fish.txt\<close>)
  beside the module, as text and with \<open>minPartitions = 1\<close>; when no configuration file
  turns up, that is the text reader of a loader built with \<open>nkeys = 3\<close>, no \<open>nvalues\<close>
  and one partition. Every other name raises \<open>NotImplementedError\<close> with the message
  \<open>Dataset '<name>' not found\<close>, which contains the name as given, and nothing else
  happens.
\<close>

theorem loadExample_datasets:
  "((dataset, file) \<in> {(''iris'', ''data/iris.txt''), (''fish'', ''data/fish.txt'')} \<longrightarrow>
      loadExample E self dataset w =
        loadSeries E self (path_join (module_dir E) file) (PyInt 3) PyNone ''text'' (Some 1)
          ''conf.json'' w
      \<and> (loadConf E (path_join (module_dir E) file) ''conf.json'' w = (Inr PyNone, w1) \<longrightarrow>
           loadExample E self dataset w =
             io_bind (io_call (SeriesLoader E (PyInt 3) PyNone (Some 1)))
               (\<lambda>loader. io_call (fromText E loader (path_join (module_dir E) file) (sc self))) w1))
   \<and> (dataset \<notin> {''iris'', ''fish''} \<longrightarrow>
      loadExample E self dataset w =
        (Inl (NotImplementedError (''Dataset '' @ [CHR 0x27] @ dataset @ [CHR 0x27] @ '' not found'')),
         w)
      \<and> sublist dataset (''Dataset '' @ [CHR 0x27] @ dataset @ [CHR 0x27] @ '' not found''))"
proof (intro conjI impI)
  assume "(dataset, file) \<in> {(''iris'', ''data/iris.txt''), (''fish'', ''data/fish.txt'')}"
  then show "loadExample E self dataset w =
        loadSeries E self (path_join (module_dir E) file) (PyInt 3) PyNone ''text'' (Some 1)
          ''conf.json'' w"
    by (auto simp: loadExample_def Let_def)
next
  assume "(dataset, file) \<in> {(''iris'', ''data/iris.txt''), (''fish'', ''data/fish.txt'')}"
    and "loadConf E (path_join (module_dir E) file) ''conf.json'' w = (Inr PyNone, w1)"
  then show "loadExample E self dataset w =
             io_bind (io_call (SeriesLoader E (PyInt 3) PyNone (Some 1)))
               (\<lambda>loader. io_call (fromText E loader (path_join (module_dir E) file) (sc self))) w1"
    by (auto simp: loadExample_def Let_def loadSeries_def lower_text io_bind_Inr io_call_Inr)
next
  assume "dataset \<notin> {''iris'', ''fish''}"
  then show "loadExample E self dataset w =
        (Inl (NotImplementedError (''Dataset '' @ [CHR 0x27] @ dataset @ [CHR 0x27] @ '' not found'')),
         w)"
    by (simp add: loadExample_def Let_def quoted_def io_raise_apply)
next
  have "''Dataset '' @ [CHR 0x27] @ dataset @ [CHR 0x27] @ '' not found'' =
      (''Dataset '' @ [CHR 0x27]) @ dataset @ ([CHR 0x27] @ '' not found'')"
    by simp
  then show "sublist dataset (''Dataset '' @ [CHR 0x27] @ dataset @ [CHR 0x27] @ '' not found'')"
    unfolding sublist_def by blast
qed

theorem loadExample_datasets_witness:
  "(''iris'', ''data/iris.txt'') \<in> {(''iris'', ''data/iris.txt''), (''fish'', ''data/fish.txt'')}
   \<and> loadConf (log_env PyNone []) (path_join (module_dir (log_env PyNone [])) ''data/iris.txt'')
        ''conf.json'' [] = (Inr PyNone, [''loadConf''])
   \<and> loadExample (log_env PyNone []) local_ctx ''iris'' [] =
        (Inr (Loaded ''fromText'' (SeriesLoaderObj (PyInt 3) PyNone (Some 1))
               ''/thunder/utils/data/iris.txt''),
         [''loadConf'', ''SeriesLoader'', ''fromText''])
   \<and> (''fish'', ''data/fish.txt'') \<in> {(''iris'', ''data/iris.txt''), (''fish'', ''data/fish.txt'')}
   \<and> loadConf (log_env PyNone []) (path_join (module_dir (log_env PyNone [])) ''data/fish.txt'')
        ''conf.json'' [] = (Inr PyNone, [''loadConf''])
   \<and> loadExample (log_env PyNone []) local_ctx ''fish'' [] =
        (Inr (Loaded ''fromText'' (SeriesLoaderObj (PyInt 3) PyNone (Some 1))
               ''/thunder/utils/data/fish.txt''),
         [''loadConf'', ''SeriesLoader'', ''fromText''])
   \<and> ''Iris'' \<notin> {''iris'', ''fish''}
   \<and> loadExample (log_env PyNone []) local_ctx ''Iris'' [] =
        (Inl (NotImplementedError ''Dataset 'Iris' not found''), [])"
proof -
  let ?E = "log_env PyNone []"
  have hi: "loadConf ?E (path_join (module_dir ?E) ''data/iris.txt'') ''conf.json'' [] =
      (Inr PyNone, [''loadConf''])"
    by (simp add: log_env_def)
  have hf: "loadConf ?E (path_join (module_dir ?E) ''data/fish.txt'') ''conf.json'' [] =
      (Inr PyNone, [''loadConf''])"
    by (simp add: log_env_def)
  have m_iris: "(''iris'', ''data/iris.txt'') \<in> {(''iris'', ''data/iris.txt''), (''fish'', ''data/fish.txt'')}"
    by simp
  have m_fish: "(''fish'', ''data/fish.txt'') \<in> {(''iris'', ''data/iris.txt''), (''fish'', ''data/fish.txt'')}"
    by simp
  have m_other: "''Iris'' \<notin> {''iris'', ''fish''}" by simp
  have a: "loadExample ?E local_ctx ''iris'' [] =
      (Inr (Loaded ''fromText'' (SeriesLoaderObj (PyInt 3) PyNone (Some 1))
             ''/thunder/utils/data/iris.txt''),
       [''loadConf'', ''SeriesLoader'', ''fromText''])"
    using loadExample_datasets [of "''iris''" "''data/iris.txt''" ?E local_ctx "[]" "[''loadConf'']",
        THEN conjunct1, THEN mp, OF m_iris, THEN conjunct2, THEN mp, OF hi]
    by (simp add: log_env_def io_defs path_join_def)
  have b: "loadExample ?E local_ctx ''fish'' [] =
      (Inr (Loaded ''fromText'' (SeriesLoaderObj (PyInt 3) PyNone (Some 1))
             ''/thunder/utils/data/fish.txt''),
       [''loadConf'', ''SeriesLoader'', ''fromText''])"
    using loadExample_datasets [of "''fish''" "''data/fish.txt''" ?E local_ctx "[]" "[''loadConf'']",
        THEN conjunct1, THEN mp, OF m_fish, THEN conjunct2, THEN mp, OF hf]
    by (simp add: log_env_def io_defs path_join_def)
  have c: "loadExample ?E local_ctx ''Iris'' [] =
      (Inl (NotImplementedError ''Dataset 'Iris' not found''), [])"
    using loadExample_datasets [of "''Iris''" "''data/iris.txt''" ?E local_ctx "[]" "[''loadConf'']",
        THEN conjunct2, THEN mp, OF m_other, THEN conjunct1]
    by simp
  from m_iris hi a m_fish hf b m_other c show ?thesis by simp
qed

text \<open>
  Claim C6. When the master string of the Spark context does not contain \<open>ec\<close>,
  \<open>loadExampleEC2\<close> raises a plain \<open>Exception\<close> for every data set name, known or not,
  and leaves the world untouched: the name is not looked at and nothing is loaded.
\<close>

theorem loadExampleEC2_needs_cluster:
  assumes "\<not> str_in ''ec'' (master (sc self))"
  shows "loadExampleEC2 E self dataset w =
      (Inl (Exception ''must be running on EC2 to load this example data sets''), w)"
  using assms by (simp add: loadExampleEC2_def io_raise_def)

theorem loadExampleEC2_needs_cluster_witness:
  "\<not> str_in ''ec'' (master (sc local_ctx))
   \<and> loadExampleEC2 (log_env PyNone []) local_ctx ''zebrafish-optomotor-response'' [] =
      (Inl (Exception ''must be running on EC2 to load this example data sets''), [])"
proof -
  have h: "\<not> str_in ''ec'' (master (sc local_ctx))" by (simp add: local_ctx_def)
  show ?thesis
    using h loadExampleEC2_needs_cluster [OF h, of "log_env PyNone []"
        "''zebrafish-optomotor-response''" "[]"]
    by simp
qed

text \<open>
  Claim C8. \<open>loadBinaryLocal\<close> and \<open>loadArrayLocal\<close> raise \<open>NotImplementedError\<close> for
  all arguments; they return nothing and call nothing.
\<close>

theorem local_loaders_not_implemented:
  "loadBinaryLocal self datafile nvalues nkeys format keyfile method w =
      (Inl (NotImplementedError []), w)
   \<and> loadArrayLocal self values keys method' w' = (Inl (NotImplementedError []), w')"
  by (simp add: loadBinaryLocal_def loadArrayLocal_def io_raise_def)

subsection \<open>Matrix files\<close>

text \<open>\<open>loadMatLocal\<close> reads the file first: an exception of \<open>loadmat\<close> is what the
  caller sees, whatever the variable would have held.\<close>

lemma loadMatLocal_read_fails:
  assumes "loadmat E datafile w = (Inl x, w1)"
  shows "loadMatLocal E self datafile varname keyfile flt mp w = (Inl (Raised x), w1)"
  using assms by (simp add: loadMatLocal_def io_bind_def io_call_def)

text \<open>After a successful read of a file that holds the variable, what remains of
  \<open>loadMatLocal\<close> runs in the world the read left behind.\<close>

lemma loadMatLocal_after_read:
  assumes "loadmat E datafile w = (Inr mat, w1)" and "mat varname = Some d"
  shows "loadMatLocal E self datafile varname keyfile flt mp w =
    (if ndim d > 2 then io_raise (IOError ''input data must be one or two dimensional'')
     else
       io_bind
         (case keyfile of
            None \<Rightarrow> io_lift (arange_keys d)
          | Some kf \<Rightarrow>
              if kf \<noteq> [] then
                io_bind (io_call (loadmat E kf)) (\<lambda>kmat.
                io_bind (io_lift (case kmat ''keys'' of None \<Rightarrow> Inl (KeyError ''keys'')
                                  | Some ka \<Rightarrow> Inr ka)) (\<lambda>ka.
                io_bind (io_lift (iter_array ka)) (\<lambda>krows. io_lift (tuples krows))))
              else io_lift (arange_keys d))
         (\<lambda>keys.
       io_bind (io_lift (iter_array d)) (\<lambda>rows.
       io_bind (io_call (parallelize E (sc self) (zip keys rows) mp)) (\<lambda>rdd.
       preprocess E rdd flt)))) w1"
proof -
  have "io_call (loadmat E datafile) w = (Inr mat, w1)"
    using assms(1) by (rule io_call_Inr)
  then show ?thesis
    using assms(2) by (simp add: loadMatLocal_def io_bind_Inr io_bind_lift_Inr)
qed

lemma arange_keys_rows: "shape d = n # rest \<Longrightarrow> arange_keys d = Inr (map Index [1..int n])"
  by (simp add: arange_keys_def)

lemma iter_array_rows: "shape d = n # rest \<Longrightarrow> iter_array d = Inr (map (row d) [0..<n])"
  by (simp add: iter_array_def)

text \<open>Without a key file, a variable with \<open>n\<close> rows is handed to the engine as the
  list that pairs the keys \<open>1..n\<close> with the rows in order.\<close>

lemma loadMatLocal_no_keyfile:
  assumes "loadmat E datafile w = (Inr mat, w1)" and "mat varname = Some d"
    and "shape d = n # rest" and "length rest \<le> 1"
    and "keyfile = None \<or> keyfile = Some []"
  shows "loadMatLocal E self datafile varname keyfile flt mp w =
    io_bind (io_call (parallelize E (sc self)
        (zip (map Index [1..int n]) (map (row d) [0..<n])) mp))
      (\<lambda>rdd. preprocess E rdd flt) w1"
proof -
  have "\<not> ndim d > 2" using assms(3,4) by (simp add: ndim_def)
  then show ?thesis
    using assms(5) loadMatLocal_after_read [OF assms(1,2)]
    by (auto simp: io_bind_lift_Inr arange_keys_rows [OF assms(3)] iter_array_rows [OF assms(3)])
qed

lemma keys_of_pairs: "map fst (zip (map Index [1..int n]) (map (row d) [0..<n])) = map Index [1..int n]"
  by (simp add: map_fst_zip)

text \<open>
  Claim C7. Let \<open>loadmat\<close> succeed and the file hold the variable \<open>d\<close>. If \<open>d\<close> has
  more than two dimensions, \<open>loadMatLocal\<close> raises \<open>IOError\<close>, in the world as the read
  left it: the check comes after the read. If \<open>d\<close> has one or two dimensions with \<open>n\<close>
  rows, no key file is given and the engine returns partitions \<open>ps\<close> that hold the
  parallelized list in order, then \<open>loadMatLocal\<close> returns a collection (\<open>ps\<close> itself
  without a filter, \<open>ps\<close> mapped by the transform with one) whose keys, read through
  the partitions in order, are \<open>1..n\<close>.
\<close>

theorem loadMatLocal_dimensions_and_keys:
  assumes "loadmat E datafile w = (Inr mat, w1)" and "mat varname = Some d"
  shows "(2 < ndim d \<longrightarrow>
            loadMatLocal E self datafile varname keyfile flt mp w =
              (Inl (IOError ''input data must be one or two dimensional''), w1))
     \<and> (shape d = n # rest \<and> length rest \<le> 1 \<and> (keyfile = None \<or> keyfile = Some [])
          \<and> parallelize E (sc self) (zip (map Index [1..int n]) (map (row d) [0..<n])) mp w1 =
               (Inr ps, w2)
          \<and> concat ps = zip (map Index [1..int n]) (map (row d) [0..<n]) \<longrightarrow>
          (flt = None \<or> flt = Some [] \<longrightarrow>
             loadMatLocal E self datafile varname keyfile flt mp w = (Inr ps, w2)
             \<and> map fst (concat ps) = map Index [1..int n])
        \<and> (flt = Some m \<and> m \<noteq> [] \<and> PreProcessor E m w2 = (Inr get, w3) \<longrightarrow>
             loadMatLocal E self datafile varname keyfile flt mp w = (Inr (mapValues get ps), w3)
             \<and> map fst (concat (mapValues get ps)) = map Index [1..int n]))"
proof (intro conjI impI; (elim conjE)?)
  assume "2 < ndim d"
  then show "loadMatLocal E self datafile varname keyfile flt mp w =
      (Inl (IOError ''input data must be one or two dimensional''), w1)"
    by (simp add: loadMatLocal_after_read [OF assms] io_raise_apply)
next
  assume h: "shape d = n # rest" "length rest \<le> 1" "keyfile = None \<or> keyfile = Some []"
    "parallelize E (sc self) (zip (map Index [1..int n]) (map (row d) [0..<n])) mp w1 = (Inr ps, w2)"
    "concat ps = zip (map Index [1..int n]) (map (row d) [0..<n])"
  have run: "loadMatLocal E self datafile varname keyfile flt mp w = preprocess E ps flt w2"
    by (simp add: loadMatLocal_no_keyfile [OF assms h(1,2,3)] io_bind_Inr io_call_Inr h(4))
  have keys: "map fst (concat ps) = map Index [1..int n]"
    by (simp only: h(5) keys_of_pairs)
  {
    assume "flt = None \<or> flt = Some []"
    then show "loadMatLocal E self datafile varname keyfile flt mp w = (Inr ps, w2)"
      using run by (auto simp: preprocess_def io_return_apply)
    show "map fst (concat ps) = map Index [1..int n]" by (rule keys)
  }
  {
    assume "flt = Some m" "m \<noteq> []" "PreProcessor E m w2 = (Inr get, w3)"
    then show "loadMatLocal E self datafile varname keyfile flt mp w = (Inr (mapValues get ps), w3)"
      using run by (simp add: preprocess_def io_bind_Inr io_call_Inr io_return_apply)
    show "map fst (concat (mapValues get ps)) = map Index [1..int n]"
      by (simp only: mapValues_concat_keys keys)
  }
qed

theorem loadMatLocal_dimensions_and_keys_witness:
  "loadmat (log_env PyNone [(''x'', \<lparr>shape = [1, 1, 1], elems = [7]\<rparr>)]) ''f.mat'' [] =
      (Inr (map_of [(''x'', \<lparr>shape = [1, 1, 1], elems = [7]\<rparr>)]), [''loadmat''])
   \<and> map_of [(''x'', \<lparr>shape = [1, 1, 1], elems = [7::int]\<rparr>)] ''x'' =
        Some \<lparr>shape = [1, 1, 1], elems = [7]\<rparr>
   \<and> 2 < ndim \<lparr>shape = [1, 1, 1], elems = [7::int]\<rparr>
   \<and> loadMatLocal (log_env PyNone [(''x'', \<lparr>shape = [1, 1, 1], elems = [7]\<rparr>)]) local_ctx
        ''f.mat'' ''x'' None None 1 [] =
        (Inl (IOError ''input data must be one or two dimensional''), [''loadmat''])
   \<and> loadmat (log_env PyNone [(''x'', \<lparr>shape = [2, 2], elems = [1, 2, 3, 4]\<rparr>)]) ''f.mat'' [] =
        (Inr (map_of [(''x'', \<lparr>shape = [2, 2], elems = [1, 2, 3, 4]\<rparr>)]), [''loadmat''])
   \<and> map_of [(''x'', \<lparr>shape = [2, 2], elems = [1, 2, 3, 4::int]\<rparr>)] ''x'' =
        Some \<lparr>shape = [2, 2], elems = [1, 2, 3, 4]\<rparr>
   \<and> shape \<lparr>shape = [2, 2], elems = [1, 2, 3, 4::int]\<rparr> = 2 # [2] \<and> length [2::nat] \<le> 1
   \<and> loadMatLocal (log_env PyNone [(''x'', \<lparr>shape = [2, 2], elems = [1, 2, 3, 4]\<rparr>)]) local_ctx
        ''f.mat'' ''x'' None None 1 [] =
        (Inr [[(Index 1, \<lparr>shape = [2], elems = [1, 2]\<rparr>), (Index 2, \<lparr>shape = [2], elems = [3, 4]\<rparr>)]],
         [''loadmat'', ''parallelize''])
   \<and> loadMatLocal (log_env PyNone [(''x'', \<lparr>shape = [2, 2], elems = [1, 2, 3, 4]\<rparr>)]) local_ctx
        ''f.mat'' ''x'' None (Some ''sub'') 1 [] =
        (Inr [[(Index 1, \<lparr>shape = [2], elems = [2, 3]\<rparr>), (Index 2, \<lparr>shape = [2], elems = [4, 5]\<rparr>)]],
         [''loadmat'', ''parallelize'', ''PreProcessor''])"
proof -
  let ?cube = "\<lparr>shape = [1, 1, 1], elems = [7::int]\<rparr>"
  let ?tbl = "\<lparr>shape = [2, 2], elems = [1, 2, 3, 4::int]\<rparr>"
  let ?E3 = "log_env PyNone [(''x'', ?cube)]"
  let ?E2 = "log_env PyNone [(''x'', ?tbl)]"
  let ?pairs = "zip (map (Index :: int \<Rightarrow> int key) [1..int 2]) (map (row ?tbl) [0..<2])"
  have r3: "loadmat ?E3 ''f.mat'' [] = (Inr (map_of [(''x'', ?cube)]), [''loadmat''])"
    by (simp add: log_env_def)
  have v3: "map_of [(''x'', ?cube)] ''x'' = Some ?cube" by simp
  have d3: "2 < ndim ?cube" by (simp add: ndim_def)
  have r2: "loadmat ?E2 ''f.mat'' [] = (Inr (map_of [(''x'', ?tbl)]), [''loadmat''])"
    by (simp add: log_env_def)
  have v2: "map_of [(''x'', ?tbl)] ''x'' = Some ?tbl" by simp
  have p2: "parallelize ?E2 (sc local_ctx) ?pairs 1 [''loadmat''] =
      (Inr [?pairs], [''loadmat'', ''parallelize''])"
    by (simp add: log_env_def)
  have f2: "PreProcessor ?E2 ''sub'' [''loadmat'', ''parallelize''] =
      (Inr bump, [''loadmat'', ''parallelize'', ''PreProcessor''])"
    by (simp add: log_env_def)
  have ev: "zip (map (Index :: int \<Rightarrow> int key) [1..2]) (map (row ?tbl) [0..<2]) =
      [(Index 1, \<lparr>shape = [2], elems = [1, 2]\<rparr>), (Index 2, \<lparr>shape = [2], elems = [3, 4]\<rparr>)]"
    by code_simp
  have a: "loadMatLocal ?E3 local_ctx ''f.mat'' ''x'' None None 1 [] =
      (Inl (IOError ''input data must be one or two dimensional''), [''loadmat''])"
    using loadMatLocal_dimensions_and_keys [OF r3 v3, THEN conjunct1, THEN mp, OF d3] .
  have hyp: "shape ?tbl = 2 # [2] \<and> length [2::nat] \<le> 1 \<and> (None = None \<or> None = Some [])
      \<and> parallelize ?E2 (sc local_ctx) ?pairs 1 [''loadmat''] =
            (Inr [?pairs], [''loadmat'', ''parallelize''])
      \<and> concat [?pairs] = ?pairs"
    using p2 by simp
  have b: "loadMatLocal ?E2 local_ctx ''f.mat'' ''x'' None None 1 [] =
      (Inr [[(Index 1, \<lparr>shape = [2], elems = [1, 2]\<rparr>), (Index 2, \<lparr>shape = [2], elems = [3, 4]\<rparr>)]],
       [''loadmat'', ''parallelize''])"
    using loadMatLocal_dimensions_and_keys [where n = 2 and rest = "[2]" and keyfile = None
        and self = local_ctx and mp = 1 and ps = "[?pairs]"
        and ?w2.0 = "[''loadmat'', ''parallelize'']" and flt = None,
        OF r2 v2, THEN conjunct2, THEN mp, OF hyp, THEN conjunct1]
    by (simp add: ev)
  have c: "loadMatLocal ?E2 local_ctx ''f.mat'' ''x'' None (Some ''sub'') 1 [] =
      (Inr [[(Index 1, \<lparr>shape = [2], elems = [2, 3]\<rparr>), (Index 2, \<lparr>shape = [2], elems = [4, 5]\<rparr>)]],
       [''loadmat'', ''parallelize'', ''PreProcessor''])"
    using loadMatLocal_dimensions_and_keys [where n = 2 and rest = "[2]" and keyfile = None
        and self = local_ctx and mp = 1 and ps = "[?pairs]"
        and ?w2.0 = "[''loadmat'', ''parallelize'']" and flt = "Some ''sub''" and m = "''sub''"
        and get = bump and ?w3.0 = "[''loadmat'', ''parallelize'', ''PreProcessor'']",
        OF r2 v2, THEN conjunct2, THEN mp, OF hyp, THEN conjunct2] f2
    by (simp add: ev mapValues_def bump_def)
  from r3 v3 d3 a r2 v2 b c show ?thesis
    by simp
qed

end
